theory Spec2Isabelle
  imports Complex_Main
begin

section \<open>FocusSphere client: chat list, invitations and the shared pomodoro timer\<close>

text \<open>
  The development embeds the state-changing handlers of the two React components
  \<^verbatim>\<open>frontend/src/App.jsx\<close> and \<^verbatim>\<open>frontend/src/PomodoroTimer.jsx\<close>.
  A component's \<^verbatim>\<open>useState\<close> cells are the fields of a record; a handler is a function
  from the state it closes over to the state after its setters have been applied, paired
  with the list of things it sends out (socket emits, HTTP requests, timers it arms).
  A string, object or mode that may be \<^verbatim>\<open>null\<close> or \<^verbatim>\<open>undefined\<close> is an \<open>option\<close>;
  a time that may be either of the two is a \<open>js_number\<close>, which keeps them apart;
  numbers that the code only ever uses as whole seconds or counters are \<open>int\<close> or \<open>nat\<close>.
\<close>

subsection \<open>JavaScript helpers\<close>

text \<open>Decimal rendering of a non-negative whole number, as a template literal prints it.\<close>

definition digit_char :: "nat \<Rightarrow> char" where
  "digit_char d = ''0123456789'' ! d"

function decimal :: "nat \<Rightarrow> string" where
  "decimal n = (if n < 10 then [digit_char n] else decimal (n div 10) @ [digit_char (n mod 10)])"
  by pat_completeness auto
termination
  by (relation "measure (\<lambda>n. n)") auto

declare decimal.simps [simp del]

text \<open>
  \<^verbatim>\<open>String.prototype.trim\<close> on the one-byte characters of \<open>string\<close>. Of the white
  space and line terminators that it strips, these lie in that range: tab, line feed,
  vertical tab, form feed, carriage return, blank and the no-break space \<open>0xA0\<close>.
\<close>

definition isWhiteSpace :: "char \<Rightarrow> bool" where
  "isWhiteSpace c =
     (c \<in> set [CHR 0x09, CHR 0x0A, CHR 0x0B, CHR 0x0C, CHR 0x0D, CHR '' '', CHR 0xA0])"

definition trim :: "string \<Rightarrow> string" where
  "trim s = rev (dropWhile isWhiteSpace (rev (dropWhile isWhiteSpace s)))"

text \<open>\<^verbatim>\<open>String.prototype.includes\<close>: the needle occurs somewhere in the string.\<close>

fun includes_str :: "string \<Rightarrow> string \<Rightarrow> bool" where
  "includes_str [] needle = (needle = [])"
| "includes_str (c # cs) needle = (take (length needle) (c # cs) = needle \<or> includes_str cs needle)"

text \<open>Truthiness of a string that may be absent: \<^verbatim>\<open>null\<close>, \<^verbatim>\<open>undefined\<close> and \<^verbatim>\<open>''\<close> are falsy.\<close>

fun truthy :: "string option \<Rightarrow> bool" where
  "truthy None = False"
| "truthy (Some s) = (s \<noteq> [])"

subsection \<open>App.jsx: state\<close>

text \<open>
  A message id is whatever the wire carries: the client's own temporary ids are strings,
  the server's ids are strings or numbers. \<^verbatim>\<open>===\<close> on them is equality of the tagged value.
\<close>

datatype js_id = IdString string | IdNumber int

record chat_message =
  id_field :: js_id
  sender :: string
  text_field :: string

record outgoing_invite =
  invitee_user_id :: nat
  invitee_name :: string

record app_state =
  message :: string
  isSocketRegistered :: bool
  outgoingInvite :: "outgoing_invite option"
  outgoingInviteTimer :: int
  sessionRoom :: "string option"
  messages :: "chat_message list"
  newMessage :: string

text \<open>What a handler of \<^verbatim>\<open>App.jsx\<close> sends out or arms.\<close>

datatype app_effect =
    EmitSendMessage string string
  | RegisterSocketWithRetry nat nat
  | PostMatchInvite nat
  | SetTimeoutMessage nat string
  | SetTimeoutDecrement nat

subsection \<open>App.jsx: chat\<close>

text \<open>
  \<^verbatim>\<open>handleSendMessage\<close> (the submit handler of the chat form). \<open>now\<close> is the value of
  \<^verbatim>\<open>Date.now()\<close> at the call. An empty (after trimming) text or a missing room returns
  without doing anything; otherwise the optimistic copy is appended under the id
  \<^verbatim>\<open>temp_\<close> followed by \<open>now\<close> in decimal, the text is emitted as \<^verbatim>\<open>send_message\<close> and the input box is cleared.
\<close>

definition handleSendMessage :: "app_state \<Rightarrow> nat \<Rightarrow> app_state \<times> app_effect list" where
  "handleSendMessage s now =
     (if trim (newMessage s) = [] \<or> \<not> truthy (sessionRoom s) then (s, [])
      else
        let messageText = trim (newMessage s);
            tempMessage = \<lparr>id_field = IdString (''temp_'' @ decimal now),
                           sender = ''You'',
                           text_field = messageText\<rparr>
        in (s\<lparr>messages := messages s @ [tempMessage], newMessage := []\<rparr>,
            [EmitSendMessage (the (sessionRoom s)) messageText]))"

text \<open>
  The \<^verbatim>\<open>receive_message\<close> listener: a functional update of the message list that
  returns the previous list when some element has the incoming id and the list with the
  incoming message appended otherwise.
\<close>

definition receive_message :: "app_state \<Rightarrow> chat_message \<Rightarrow> app_state" where
  "receive_message s messageData =
     s\<lparr>messages :=
         (let prevMessages = messages s;
              exists = list_ex (\<lambda>msg. id_field msg = id_field messageData) prevMessages
          in if exists then prevMessages else prevMessages @ [messageData])\<rparr>"

text \<open>The number of messages in the list that show a given text.\<close>

definition visibleWithText :: "string \<Rightarrow> app_state \<Rightarrow> nat" where
  "visibleWithText t s = length (filter (\<lambda>msg. text_field msg = t) (messages s))"

subsection \<open>App.jsx: outgoing invitation\<close>

text \<open>The outcome of \<^verbatim>\<open>apiClient.post('/api/match/invite', ...)\<close>: it resolves, or it
  rejects with an error whose \<^verbatim>\<open>response.data.error\<close> may be absent.\<close>

datatype api_result = ApiOk | ApiError "string option"

text \<open>
  \<^verbatim>\<open>handleSendInvite\<close>. The surroundings of the call are parameters: \<open>socketConnected\<close> is
  \<^verbatim>\<open>socket.connected\<close>, \<open>registered\<close> says whether the awaited
  \<^verbatim>\<open>registerSocketWithRetry(3, 200)\<close> sets the registration flag (the only state cell it
  writes), \<open>post\<close> is the outcome of the HTTP request. The awaits are run through in one
  step, so no other handler interleaves.
\<close>

definition handleSendInvite ::
  "app_state \<Rightarrow> bool \<Rightarrow> bool \<Rightarrow> api_result \<Rightarrow> nat \<Rightarrow> string option \<Rightarrow> app_state \<times> app_effect list" where
  "handleSendInvite s socketConnected registered post inviteeUserId inviteeName =
     (if outgoingInvite s \<noteq> None then
        (s\<lparr>message := ''You already have a pending invitation. Please wait for a response.''\<rparr>, [])
      else
        let s1 = s\<lparr>message := ''Sending invite to ''
                      @ (if truthy inviteeName then the inviteeName else ''user '' @ decimal inviteeUserId)
                      @ ''...''\<rparr>;
            reregister = (\<not> isSocketRegistered s \<and> socketConnected);
            s2 = (if reregister \<and> registered then s1\<lparr>isSocketRegistered := True\<rparr> else s1);
            sent = (if reregister then [RegisterSocketWithRetry 3 200] else [])
                   @ [PostMatchInvite inviteeUserId]
        in case post of
             ApiOk \<Rightarrow>
               (s2\<lparr>outgoingInvite :=
                      Some \<lparr>invitee_user_id = inviteeUserId,
                            invitee_name = (if truthy inviteeName then the inviteeName
                                            else ''User '' @ decimal inviteeUserId)\<rparr>,
                    outgoingInviteTimer := 15,
                    message := ''Invitation sent! Waiting for response...''\<rparr>,
                sent)
           | ApiError e \<Rightarrow>
               (let errorMsg = (if truthy e then the e else ''Could not send invite'')
                in (s2\<lparr>message := ''Error: '' @ errorMsg\<rparr>,
                    sent @ (if includes_str errorMsg ''not online''
                            then [SetTimeoutMessage 2000
                                    ''Tip: Make sure the other user is logged in and has set their status to \"searching\". Try again in a moment.'']
                            else []))))"

text \<open>The \<^verbatim>\<open>invite_declined\<close> listener.\<close>

definition invite_declined :: "app_state \<Rightarrow> app_state" where
  "invite_declined s =
     s\<lparr>outgoingInvite := None,
       outgoingInviteTimer := 15,
       message := ''Your invitation was declined. You can send another invite now.''\<rparr>"

text \<open>
  The effect keyed on \<^verbatim>\<open>[outgoingInvite, outgoingInviteTimer]\<close>. Without an invitation it
  puts the countdown back to 15; with the countdown at or below zero it clears the
  invitation; otherwise it arms a one-second timeout whose callback is
  \<open>outgoingInviteDecrement\<close>.
\<close>

definition outgoingInviteEffect :: "app_state \<Rightarrow> app_state \<times> app_effect list" where
  "outgoingInviteEffect s =
     (if outgoingInvite s = None then (s\<lparr>outgoingInviteTimer := 15\<rparr>, [])
      else if outgoingInviteTimer s \<le> 0 then
        (s\<lparr>outgoingInvite := None,
           outgoingInviteTimer := 15,
           message := ''Invitation expired. You can send another invite now.''\<rparr>, [])
      else (s, [SetTimeoutDecrement 1000]))"

definition outgoingInviteDecrement :: "app_state \<Rightarrow> app_state" where
  "outgoingInviteDecrement s = s\<lparr>outgoingInviteTimer := outgoingInviteTimer s - 1\<rparr>"

text \<open>
  One countdown step of a waiting invitation: the armed timeout fires and, the countdown
  having changed, the effect runs again on the new state.
\<close>

definition outgoingInviteSecond :: "app_state \<Rightarrow> app_state" where
  "outgoingInviteSecond s = fst (outgoingInviteEffect (outgoingInviteDecrement s))"

subsection \<open>PomodoroTimer.jsx: state\<close>

datatype timer_mode = pomodoro | short | long

record timer_preset =
  preset_name :: string
  preset_time :: "int option"

definition DEFAULT_POMODORO_TIME :: int where
  "DEFAULT_POMODORO_TIME = 25 * 60"

definition DEFAULT_SHORT_BREAK_TIME :: int where
  "DEFAULT_SHORT_BREAK_TIME = 5 * 60"

definition DEFAULT_LONG_BREAK_TIME :: int where
  "DEFAULT_LONG_BREAK_TIME = 15 * 60"

fun TIMER_PRESETS :: "timer_mode \<Rightarrow> timer_preset list" where
  "TIMER_PRESETS pomodoro =
     [\<lparr>preset_name = ''Classic'', preset_time = Some (25 * 60)\<rparr>,
      \<lparr>preset_name = ''Short'', preset_time = Some (15 * 60)\<rparr>,
      \<lparr>preset_name = ''Long'', preset_time = Some (45 * 60)\<rparr>,
      \<lparr>preset_name = ''Custom'', preset_time = None\<rparr>]"
| "TIMER_PRESETS short =
     [\<lparr>preset_name = ''Quick'', preset_time = Some (3 * 60)\<rparr>,
      \<lparr>preset_name = ''Standard'', preset_time = Some (5 * 60)\<rparr>,
      \<lparr>preset_name = ''Extended'', preset_time = Some (10 * 60)\<rparr>]"
| "TIMER_PRESETS long =
     [\<lparr>preset_name = ''Short'', preset_time = Some (10 * 60)\<rparr>,
      \<lparr>preset_name = ''Standard'', preset_time = Some (15 * 60)\<rparr>,
      \<lparr>preset_name = ''Extended'', preset_time = Some (30 * 60)\<rparr>]"

text \<open>
  A time as the component stores it and as a payload carries it: a whole number of
  seconds, \<^verbatim>\<open>null\<close>, \<^verbatim>\<open>undefined\<close> (also a missing field) or \<^verbatim>\<open>NaN\<close>.
\<close>

datatype js_number = Num int | Null | Undefined | NaN

text \<open>
  The component's state cells, together with the two props the handlers read: the room
  (\<open>sessionRoomProp\<close>) and whether an \<^verbatim>\<open>onPomodoroComplete\<close> callback was passed.
\<close>

record timer_state =
  timeRemaining :: js_number
  isRunning :: bool
  mode :: timer_mode
  hasCompletedPomodoro :: bool
  pomodoroCount :: nat
  autoStartBreaks :: bool
  customDurations :: "timer_mode \<Rightarrow> int"
  selectedPreset :: "timer_mode \<Rightarrow> nat"
  sessionRoomProp :: "string option"
  onPomodoroCompleteProp :: bool

text \<open>The state of a freshly mounted timer (the \<^verbatim>\<open>useState\<close> initialisers).\<close>

definition initialTimer :: "string option \<Rightarrow> bool \<Rightarrow> timer_state" where
  "initialTimer room callback =
     \<lparr>timeRemaining = Num DEFAULT_POMODORO_TIME,
      isRunning = False,
      mode = pomodoro,
      hasCompletedPomodoro = False,
      pomodoroCount = 0,
      autoStartBreaks = True,
      customDurations =
        (\<lambda>m. case m of pomodoro \<Rightarrow> DEFAULT_POMODORO_TIME
                       | short \<Rightarrow> DEFAULT_SHORT_BREAK_TIME
                       | long \<Rightarrow> DEFAULT_LONG_BREAK_TIME),
      selectedPreset = (\<lambda>m. case m of pomodoro \<Rightarrow> 0 | short \<Rightarrow> 1 | long \<Rightarrow> 1),
      sessionRoomProp = room,
      onPomodoroCompleteProp = callback\<rparr>"

text \<open>The payload of an emitted \<^verbatim>\<open>timer_action\<close> and of a received \<^verbatim>\<open>timer_update\<close>.
  In a received payload the mode may be missing.\<close>

record timer_action =
  room_id :: "string option"
  action :: string
  time :: js_number
  mode_sent :: timer_mode

record timer_update =
  data_action :: string
  data_time :: js_number
  data_mode :: "timer_mode option"

datatype notification = PomodoroComplete nat | BreakComplete

datatype timeout_callback = StartBreak nat | StartPomodoro

datatype timer_effect =
    EmitTimerAction timer_action
  | EmitPomodoroCompleted "string option"
  | PlayNotificationSound
  | ShowNotification notification
  | OnPomodoroComplete
  | SetInterval nat
  | SetTimeout nat timeout_callback

subsection \<open>PomodoroTimer.jsx: durations and progress\<close>

text \<open>
  The duration a mode has under the client's settings: the time of the selected preset
  when that preset exists and has one, the custom duration otherwise. The source writes
  this lookup out three times (\<^verbatim>\<open>getCurrentDuration\<close>, the fallback of the reset
  update and \<^verbatim>\<open>handleSetMode\<close>).
\<close>

definition presetOrCustom :: "timer_state \<Rightarrow> timer_mode \<Rightarrow> int" where
  "presetOrCustom s m =
     (let presets = TIMER_PRESETS m; i = selectedPreset s m
      in if i < length presets \<and> preset_time (presets ! i) \<noteq> None
         then the (preset_time (presets ! i))
         else customDurations s m)"

definition getCurrentDuration :: "timer_state \<Rightarrow> int" where
  "getCurrentDuration s = presetOrCustom s (mode s)"

text \<open>The effect keyed on \<^verbatim>\<open>[mode, selectedPreset, customDurations]\<close>.\<close>

definition initDurationEffect :: "timer_state \<Rightarrow> timer_state" where
  "initDurationEffect s = s\<lparr>timeRemaining := Num (getCurrentDuration s)\<rparr>"

text \<open>
  The value of \<^verbatim>\<open>getProgress\<close>: a finite percentage, taken over the rationals, or one
  of the three non-finite results of the division.
\<close>

datatype progress_value = Percent rat | PlusInfinity | MinusInfinity | NotANumber

text \<open>
  \<^verbatim>\<open>((totalTime - timeRemaining) / totalTime) * 100\<close>. In the subtraction
  \<^verbatim>\<open>null\<close> counts as 0, \<^verbatim>\<open>undefined\<close> and \<^verbatim>\<open>NaN\<close> give \<^verbatim>\<open>NaN\<close>; a total of
  zero divides to \<^verbatim>\<open>NaN\<close> or to an infinity with the sign of the difference.
\<close>

definition progressOf :: "int \<Rightarrow> int \<Rightarrow> progress_value" where
  "progressOf totalTime t =
     (let elapsed = totalTime - t
      in if totalTime = 0
         then (if elapsed = 0 then NotANumber
               else if elapsed > 0 then PlusInfinity else MinusInfinity)
         else Percent ((of_int elapsed / of_int totalTime) * 100))"

definition getProgress :: "timer_state \<Rightarrow> progress_value" where
  "getProgress s =
     (let totalTime = getCurrentDuration s
      in case timeRemaining s of
           Num t \<Rightarrow> progressOf totalTime t
         | Null \<Rightarrow> progressOf totalTime 0
         | Undefined \<Rightarrow> NotANumber
         | NaN \<Rightarrow> NotANumber)"

text \<open>The label under the clock shows \<^verbatim>\<open>Math.round(progress)\<close>: the nearest whole
  number, a half rounding up.\<close>

definition progressLabel :: "timer_state \<Rightarrow> progress_value" where
  "progressLabel s =
     (case getProgress s of
        Percent p \<Rightarrow> Percent (of_int \<lfloor>p + 1 / 2\<rfloor>)
      | PlusInfinity \<Rightarrow> PlusInfinity
      | MinusInfinity \<Rightarrow> MinusInfinity
      | NotANumber \<Rightarrow> NotANumber)"

subsection \<open>PomodoroTimer.jsx: control handlers\<close>

text \<open>
  \<^verbatim>\<open>sendTimerAction\<close> builds the payload it emits: the given time unless that is
  \<^verbatim>\<open>null\<close> or \<^verbatim>\<open>undefined\<close>, in which case the remaining time of the render it
  was created in. A call that leaves the time out passes \<^verbatim>\<open>null\<close>, the default.
\<close>

definition sendTimerAction :: "timer_state \<Rightarrow> string \<Rightarrow> js_number \<Rightarrow> timer_mode \<Rightarrow> timer_action" where
  "sendTimerAction r act newTime newMode =
     (let timeToSend = (if newTime \<noteq> Null \<and> newTime \<noteq> Undefined then newTime
                        else timeRemaining r)
      in \<lparr>room_id = sessionRoomProp r, action = act, time = timeToSend, mode_sent = newMode\<rparr>)"

definition handleStartPause :: "timer_state \<Rightarrow> timer_effect list" where
  "handleStartPause r =
     (if isRunning r then [EmitTimerAction (sendTimerAction r ''pause'' Null (mode r))]
      else [EmitTimerAction (sendTimerAction r ''start'' (timeRemaining r) (mode r))])"

definition handleReset :: "timer_state \<Rightarrow> timer_state \<times> timer_effect list" where
  "handleReset s =
     (let resetTime = getCurrentDuration s
      in (s\<lparr>timeRemaining := Num resetTime, isRunning := False\<rparr>,
          [EmitTimerAction (sendTimerAction s ''reset'' (Num resetTime) (mode s))]))"

definition handleSkip :: "timer_state \<Rightarrow> timer_effect list" where
  "handleSkip r = [EmitTimerAction (sendTimerAction r ''skip'' (Num 0) (mode r))]"

text \<open>
  \<^verbatim>\<open>handleSetMode\<close> reads the settings of the render \<open>r\<close> it was created in and
  writes to the current state \<open>s\<close>; a click runs it with \<open>r = s\<close>, the auto-start
  timeout with the render in which the countdown effect ran.
\<close>

definition handleSetMode ::
  "timer_state \<Rightarrow> timer_state \<Rightarrow> timer_mode \<Rightarrow> bool \<Rightarrow> timer_state \<times> timer_effect list" where
  "handleSetMode r s newMode silent =
     (let newTime = presetOrCustom r newMode;
          s1 = (if newMode = pomodoro then s\<lparr>hasCompletedPomodoro := False\<rparr> else s);
          s2 = s1\<lparr>mode := newMode, timeRemaining := Num newTime\<rparr>
      in (s2, if \<not> silent
              then [EmitTimerAction (sendTimerAction r ''set_mode'' (Num newTime) newMode)]
              else []))"

definition handlePresetChange :: "timer_state \<Rightarrow> nat \<Rightarrow> timer_state \<times> timer_effect list" where
  "handlePresetChange s newPresetIndex =
     (let s1 = s\<lparr>selectedPreset := (selectedPreset s)(mode s := newPresetIndex)\<rparr>;
          presets = TIMER_PRESETS (mode s)
      in if newPresetIndex < length presets \<and> preset_time (presets ! newPresetIndex) \<noteq> None
         then (let presetTime = the (preset_time (presets ! newPresetIndex))
               in (s1\<lparr>timeRemaining := Num presetTime\<rparr>,
                   [EmitTimerAction (sendTimerAction s ''set_mode'' (Num presetTime) (mode s))]))
         else (s1, []))"

subsection \<open>PomodoroTimer.jsx: the timer_update listener\<close>

text \<open>
  \<^verbatim>\<open>data.time || timeRemaining\<close>: the carried time when it is truthy, the local
  remaining time otherwise. \<^verbatim>\<open>null\<close>, \<^verbatim>\<open>undefined\<close>, \<^verbatim>\<open>NaN\<close> and the number 0
  are falsy.
\<close>

definition timeOrRemaining :: "js_number \<Rightarrow> js_number \<Rightarrow> js_number" where
  "timeOrRemaining dataTime remaining =
     (case dataTime of
        Num t \<Rightarrow> if t = 0 then remaining else Num t
      | Null \<Rightarrow> remaining
      | Undefined \<Rightarrow> remaining
      | NaN \<Rightarrow> remaining)"

definition handleTimerUpdate :: "timer_state \<Rightarrow> timer_update \<Rightarrow> timer_state" where
  "handleTimerUpdate s data =
     (if data_action data = ''start'' then
        s\<lparr>timeRemaining := timeOrRemaining (data_time data) (timeRemaining s),
          isRunning := True\<rparr>
      else if data_action data = ''pause'' then
        s\<lparr>isRunning := False\<rparr>
      else if data_action data = ''reset'' then
        (let targetMode = (case data_mode data of Some m \<Rightarrow> m | None \<Rightarrow> mode s);
             resetTime = (if data_time data \<noteq> Null \<and> data_time data \<noteq> Undefined
                          then data_time data
                          else Num (presetOrCustom s targetMode));
             s1 = (case data_mode data of
                     Some m \<Rightarrow> if m \<noteq> mode s then s\<lparr>mode := m\<rparr> else s
                   | None \<Rightarrow> s)
         in s1\<lparr>timeRemaining := resetTime, isRunning := False\<rparr>)
      else if data_action data = ''skip'' then
        s\<lparr>timeRemaining := Num 0, isRunning := True\<rparr>
      else if data_action data = ''set_mode'' then
        (let s1 = s\<lparr>timeRemaining := data_time data\<rparr>;
             s2 = (case data_mode data of Some m \<Rightarrow> s1\<lparr>mode := m\<rparr> | None \<Rightarrow> s1)
         in s2\<lparr>isRunning := False\<rparr>)
      else s)"

subsection \<open>PomodoroTimer.jsx: the local countdown\<close>

text \<open>
  The effect of the local countdown. While the timer runs with time left it arms the
  one-second interval, whose callback is \<open>countdownTick\<close> (the motivational message it
  may show is display only and is left out). When the timer runs and the remaining time
  is exactly 0 it handles completion: it stops, sounds, notifies, counts a finished
  pomodoro and emits \<^verbatim>\<open>pomodoro_completed\<close> for it, and with auto-start on arms the
  two-second timeout that moves to the next mode.
\<close>

definition countdownEffect :: "timer_state \<Rightarrow> timer_state \<times> timer_effect list" where
  "countdownEffect s =
     (if isRunning s \<and> (case timeRemaining s of Num t \<Rightarrow> t > 0 | _ \<Rightarrow> False) then
        (s, [SetInterval 1000])
      else if isRunning s \<and> timeRemaining s = Num 0 then
        (if mode s = pomodoro then
           (let newCount = pomodoroCount s + 1
            in (s\<lparr>isRunning := False, pomodoroCount := newCount, hasCompletedPomodoro := True\<rparr>,
                [PlayNotificationSound,
                 ShowNotification (PomodoroComplete newCount),
                 EmitPomodoroCompleted (sessionRoomProp s)]
                @ (if onPomodoroCompleteProp s then [OnPomodoroComplete] else [])
                @ (if autoStartBreaks s then [SetTimeout 2000 (StartBreak newCount)] else [])))
         else
           (s\<lparr>isRunning := False\<rparr>,
            [PlayNotificationSound, ShowNotification BreakComplete]
            @ (if autoStartBreaks s then [SetTimeout 2000 StartPomodoro] else [])))
      else (s, []))"

text \<open>\<^verbatim>\<open>prevTime - 1\<close>: \<^verbatim>\<open>null\<close> counts as 0, \<^verbatim>\<open>undefined\<close> gives \<^verbatim>\<open>NaN\<close>.\<close>

definition countdownTick :: "timer_state \<Rightarrow> timer_state" where
  "countdownTick s =
     s\<lparr>timeRemaining :=
         (case timeRemaining s of
            Num prevTime \<Rightarrow> Num (prevTime - 1)
          | Null \<Rightarrow> Num (- 1)
          | Undefined \<Rightarrow> NaN
          | NaN \<Rightarrow> NaN)\<rparr>"

text \<open>
  The callback of the auto-start timeout, armed in the render \<open>r\<close> and fired on the
  state \<open>s\<close>: it picks the next mode (after a pomodoro, the long break when the new count
  is divisible by 4 and the short break otherwise), sets it silently and then calls
  \<^verbatim>\<open>handleStartPause\<close> of the render \<open>r\<close>.
\<close>

definition autoStartTimeout ::
  "timer_state \<Rightarrow> timeout_callback \<Rightarrow> timer_state \<Rightarrow> timer_state \<times> timer_effect list" where
  "autoStartTimeout r cb s =
     (let nextMode = (case cb of
                        StartBreak newCount \<Rightarrow> (if newCount mod 4 = 0 then long else short)
                      | StartPomodoro \<Rightarrow> pomodoro);
          (s1, sent) = handleSetMode r s nextMode True
      in (s1, sent @ handleStartPause r))"

subsection \<open>Example states\<close>

text \<open>A client in room \<^verbatim>\<open>room-7\<close> that has typed a message and not yet sent it.\<close>

definition chatBefore :: app_state where
  "chatBefore =
     \<lparr>message = [], isSocketRegistered = True, outgoingInvite = None,
      outgoingInviteTimer = 15, sessionRoom = Some ''room-7'', messages = [],
      newMessage = '' hello ''\<rparr>"

text \<open>The server's copy of that message, under the id the server gave it.\<close>

definition serverEcho :: chat_message where
  "serverEcho = \<lparr>id_field = IdNumber 41, sender = ''Asha'', text_field = ''hello''\<rparr>"

definition chatAfterEcho :: app_state where
  "chatAfterEcho = receive_message (fst (handleSendMessage chatBefore 1700000000123)) serverEcho"

definition otherMessage :: chat_message where
  "otherMessage = \<lparr>id_field = IdNumber 42, sender = ''Asha'', text_field = ''ready?''\<rparr>"

text \<open>A client outside any room with no invitation out, and the invitation it sends.\<close>

definition lobby :: app_state where
  "lobby =
     \<lparr>message = [], isSocketRegistered = True, outgoingInvite = None,
      outgoingInviteTimer = 15, sessionRoom = None, messages = [], newMessage = []\<rparr>"

definition lobbyWaiting :: app_state where
  "lobbyWaiting = fst (handleSendInvite lobby True True ApiOk 12 (Some ''Bo''))"

text \<open>Timers: one in the middle of a focus interval, one in the middle of a short break,
  one whose fourth focus interval has just run out, one that chose the 45-minute preset,
  and updates arriving from the partner.\<close>

definition midFocus :: timer_state where
  "midFocus = (initialTimer (Some ''room-7'') False)\<lparr>timeRemaining := Num 417\<rparr>"

definition midShortBreak :: timer_state where
  "midShortBreak =
     (fst (handleSetMode (initialTimer (Some ''room-7'') False)
             (initialTimer (Some ''room-7'') False) short False))
       \<lparr>timeRemaining := Num 120, isRunning := True\<rparr>"

definition focusJustRanOut :: timer_state where
  "focusJustRanOut =
     (initialTimer (Some ''room-7'') True)
       \<lparr>timeRemaining := Num 0, isRunning := True, pomodoroCount := 3\<rparr>"

definition longPresetTimer :: timer_state where
  "longPresetTimer = fst (handlePresetChange (initialTimer (Some ''room-7'') False) 2)"

definition resetFromPartner :: timer_update where
  "resetFromPartner = \<lparr>data_action = ''reset'', data_time = Num 300, data_mode = Some short\<rparr>"

definition resetToClassic :: timer_update where
  "resetToClassic = \<lparr>data_action = ''reset'', data_time = Num 1500, data_mode = Some pomodoro\<rparr>"

definition resetToExtendedBreak :: timer_update where
  "resetToExtendedBreak = \<lparr>data_action = ''reset'', data_time = Num 600, data_mode = Some short\<rparr>"

definition startAtZero :: timer_update where
  "startAtZero = \<lparr>data_action = ''start'', data_time = Num 0, data_mode = Some pomodoro\<rparr>"

section \<open>Properties\<close>

subsection \<open>Chat\<close>

lemma trim_hello: "trim '' hello '' = ''hello''"
  by (simp add: trim_def isWhiteSpace_def)

lemma decimal_example: "decimal 1700000000123 = ''1700000000123''"
  by (simp add: decimal.simps digit_char_def)

lemma handleSendMessage_chatBefore:
  "handleSendMessage chatBefore 1700000000123 =
     (chatBefore\<lparr>messages := [\<lparr>id_field = IdString ''temp_1700000000123'', sender = ''You'',
                                 text_field = ''hello''\<rparr>],
                 newMessage := []\<rparr>,
      [EmitSendMessage ''room-7'' ''hello''])"
  by (simp add: handleSendMessage_def chatBefore_def trim_hello decimal_example Let_def)

text \<open>
  In general: when the send goes through and the server's copy carries an id that is
  neither the temporary id nor already in the list, the list afterwards shows the text
  twice more than before.
\<close>

lemma optimistic_copy_and_echo_both_stay:
  assumes "trim (newMessage s) \<noteq> []" and "truthy (sessionRoom s)"
    and "id_field echo \<noteq> IdString (''temp_'' @ decimal now)"
    and "\<forall>msg \<in> set (messages s). id_field msg \<noteq> id_field echo"
    and "text_field echo = trim (newMessage s)"
  shows "visibleWithText (trim (newMessage s)) (receive_message (fst (handleSendMessage s now)) echo)
           = visibleWithText (trim (newMessage s)) s + 2"
  using assms
  by (auto simp: visibleWithText_def receive_message_def handleSendMessage_def Let_def list_ex_iff)

text \<open>
  C1. After the sender's optimistic insert and the server echo of the same message, the
  sender's list should show one message with that text. On the code the optimistic copy
  (id \<^verbatim>\<open>temp_1700000000123\<close>) and the echo (id 41) differ in id, so the id test of
  \<^verbatim>\<open>receive_message\<close> keeps both: the list holds two messages with the text
  \<^verbatim>\<open>hello\<close>.
\<close>

theorem optimistic_insert_then_echo_shows_two:
  "messages chatAfterEcho =
     [\<lparr>id_field = IdString ''temp_1700000000123'', sender = ''You'', text_field = ''hello''\<rparr>,
      \<lparr>id_field = IdNumber 41, sender = ''Asha'', text_field = ''hello''\<rparr>]
   \<and> visibleWithText ''hello'' chatAfterEcho = 2"
  by (simp add: chatAfterEcho_def handleSendMessage_chatBefore receive_message_def serverEcho_def
      visibleWithText_def Let_def)

text \<open>
  C6. Delivery of \<^verbatim>\<open>receive_message\<close> is idempotent on the message list: when the
  incoming id is already the id of a listed message the state is unchanged; otherwise the
  message is appended, the rest of the state is unchanged and the new list holds that id
  exactly once; delivering the same message a second time changes nothing.
\<close>

theorem receive_message_dedup:
  "((\<exists>msg \<in> set (messages s). id_field msg = id_field md) \<longrightarrow> receive_message s md = s)
   \<and> (\<not> (\<exists>msg \<in> set (messages s). id_field msg = id_field md) \<longrightarrow>
        receive_message s md = s\<lparr>messages := messages s @ [md]\<rparr>
        \<and> length (filter (\<lambda>msg. id_field msg = id_field md) (messages (receive_message s md))) = 1)
   \<and> receive_message (receive_message s md) md = receive_message s md"
  by (auto simp: receive_message_def list_ex_iff Let_def filter_empty_conv)

theorem receive_message_dedup_witness:
  "(\<exists>msg \<in> set (messages chatAfterEcho). id_field msg = id_field serverEcho)
   \<and> receive_message chatAfterEcho serverEcho = chatAfterEcho
   \<and> \<not> (\<exists>msg \<in> set (messages chatAfterEcho). id_field msg = id_field otherMessage)
   \<and> receive_message chatAfterEcho otherMessage
       = chatAfterEcho\<lparr>messages := messages chatAfterEcho @ [otherMessage]\<rparr>"
proof -
  have m: "messages chatAfterEcho =
     [\<lparr>id_field = IdString ''temp_1700000000123'', sender = ''You'', text_field = ''hello''\<rparr>,
      \<lparr>id_field = IdNumber 41, sender = ''Asha'', text_field = ''hello''\<rparr>]"
    by (simp add: chatAfterEcho_def handleSendMessage_chatBefore receive_message_def serverEcho_def
        Let_def)
  have a: "\<exists>msg \<in> set (messages chatAfterEcho). id_field msg = id_field serverEcho"
    by (simp add: m serverEcho_def)
  have b: "\<not> (\<exists>msg \<in> set (messages chatAfterEcho). id_field msg = id_field otherMessage)"
    by (simp add: m otherMessage_def)
  from receive_message_dedup [of chatAfterEcho serverEcho]
       receive_message_dedup [of chatAfterEcho otherMessage] a b
  show ?thesis by blast
qed

subsection \<open>Invitations\<close>

lemma handleSendInvite_creates_pending:
  "outgoingInvite s = None \<Longrightarrow>
   outgoingInvite (fst (handleSendInvite s c r ApiOk uid nm)) =
     Some \<lparr>invitee_user_id = uid,
           invitee_name = (if truthy nm then the nm else ''User '' @ decimal uid)\<rparr>
   \<and> outgoingInviteTimer (fst (handleSendInvite s c r ApiOk uid nm)) = 15"
  by (simp add: handleSendInvite_def Let_def)

lemma lobbyWaiting_pending:
  "outgoingInvite lobbyWaiting = Some \<lparr>invitee_user_id = 12, invitee_name = ''Bo''\<rparr>"
  "outgoingInviteTimer lobbyWaiting = 15"
  by (simp_all add: lobbyWaiting_def lobby_def handleSendInvite_def Let_def)

text \<open>
  C7. While the outgoing-invite state is non-null, an attempt to send an invitation only
  sets the already-pending message: nothing is sent (no registration, no invite request)
  and no other state cell changes, whatever the invitee and the surroundings.
\<close>

theorem handleSendInvite_already_pending:
  "outgoingInvite s \<noteq> None \<Longrightarrow>
   handleSendInvite s c r post uid nm =
     (s\<lparr>message := ''You already have a pending invitation. Please wait for a response.''\<rparr>, [])"
  by (simp add: handleSendInvite_def)

theorem handleSendInvite_already_pending_witness:
  "outgoingInvite lobbyWaiting \<noteq> None
   \<and> handleSendInvite lobbyWaiting True True ApiOk 13 (Some ''Cy'') =
       (lobbyWaiting\<lparr>message := ''You already have a pending invitation. Please wait for a response.''\<rparr>,
        [])"
proof -
  have h: "outgoingInvite lobbyWaiting \<noteq> None"
    by (simp add: lobbyWaiting_pending)
  from handleSendInvite_already_pending
         [OF h, where c = True and r = True and post = ApiOk and uid = 13 and nm = "Some ''Cy''"] h
  show ?thesis by simp
qed

lemma outgoingInviteSecond_while_pending:
  "outgoingInvite s = Some pending \<Longrightarrow> outgoingInviteTimer s = 15 \<Longrightarrow> k < 15 \<Longrightarrow>
   (outgoingInviteSecond ^^ k) s = s\<lparr>outgoingInviteTimer := 15 - int k\<rparr>"
proof (induction k)
  case 0
  then show ?case by simp
next
  case (Suc k)
  then show ?case
    by (simp add: outgoingInviteSecond_def outgoingInviteEffect_def outgoingInviteDecrement_def)
qed

lemma outgoingInviteSecond_fifteenth:
  assumes "outgoingInvite s = Some pending" and "outgoingInviteTimer s = 15"
  shows "(outgoingInviteSecond ^^ 15) s =
     s\<lparr>outgoingInvite := None, outgoingInviteTimer := 15,
       message := ''Invitation expired. You can send another invite now.''\<rparr>"
proof -
  have e: "(outgoingInviteSecond ^^ 14) s = s\<lparr>outgoingInviteTimer := 15 - int 14\<rparr>"
    using outgoingInviteSecond_while_pending [OF assms, of 14] by simp
  have "(outgoingInviteSecond ^^ 15) s = (outgoingInviteSecond ^^ Suc 14) s"
    by simp
  also have "\<dots> = outgoingInviteSecond ((outgoingInviteSecond ^^ 14) s)"
    by (simp only: funpow.simps o_apply)
  finally show ?thesis using assms unfolding e
    by (simp add: outgoingInviteSecond_def outgoingInviteEffect_def outgoingInviteDecrement_def)
qed

text \<open>
  C8. An outgoing invitation that gets no response (invitation set, countdown at 15, as
  \<^verbatim>\<open>handleSendInvite\<close> leaves them) is still pending after each of the first 14
  countdown steps, with the next step armed; after the 15th step the invitation is
  cleared and the countdown is back at 15, the effect has nothing more to do, and a new
  \<^verbatim>\<open>handleSendInvite\<close> performs its invite request and, when that succeeds, sets a
  new outgoing invitation.
\<close>

theorem outgoing_invite_expires_after_15_steps:
  assumes "outgoingInvite s = Some pending" and "outgoingInviteTimer s = 15"
  shows "(\<forall>k<15. outgoingInvite ((outgoingInviteSecond ^^ k) s) = Some pending
              \<and> outgoingInviteTimer ((outgoingInviteSecond ^^ k) s) = 15 - int k
              \<and> snd (outgoingInviteEffect ((outgoingInviteSecond ^^ k) s)) = [SetTimeoutDecrement 1000])
       \<and> outgoingInvite ((outgoingInviteSecond ^^ 15) s) = None
       \<and> outgoingInviteTimer ((outgoingInviteSecond ^^ 15) s) = 15
       \<and> outgoingInviteEffect ((outgoingInviteSecond ^^ 15) s) = ((outgoingInviteSecond ^^ 15) s, [])
       \<and> outgoingInvite (fst (handleSendInvite ((outgoingInviteSecond ^^ 15) s) c r ApiOk uid nm)) \<noteq> None
       \<and> PostMatchInvite uid
           \<in> set (snd (handleSendInvite ((outgoingInviteSecond ^^ 15) s) c r post uid nm))"
proof -
  have p: "\<And>k. k < 15 \<Longrightarrow> (outgoingInviteSecond ^^ k) s = s\<lparr>outgoingInviteTimer := 15 - int k\<rparr>"
    using outgoingInviteSecond_while_pending [OF assms] by blast
  have l: "(outgoingInviteSecond ^^ 15) s =
     s\<lparr>outgoingInvite := None, outgoingInviteTimer := 15,
       message := ''Invitation expired. You can send another invite now.''\<rparr>"
    using outgoingInviteSecond_fifteenth [OF assms] .
  have a: "\<forall>k<15. outgoingInvite ((outgoingInviteSecond ^^ k) s) = Some pending
              \<and> outgoingInviteTimer ((outgoingInviteSecond ^^ k) s) = 15 - int k
              \<and> snd (outgoingInviteEffect ((outgoingInviteSecond ^^ k) s)) = [SetTimeoutDecrement 1000]"
    using assms by (simp add: p outgoingInviteEffect_def)
  have b: "outgoingInviteEffect ((outgoingInviteSecond ^^ 15) s) = ((outgoingInviteSecond ^^ 15) s, [])"
    unfolding l by (simp add: outgoingInviteEffect_def)
  have c: "outgoingInvite (fst (handleSendInvite ((outgoingInviteSecond ^^ 15) s) c r ApiOk uid nm)) \<noteq> None"
    unfolding l by (simp add: handleSendInvite_def Let_def)
  have d: "PostMatchInvite uid
             \<in> set (snd (handleSendInvite ((outgoingInviteSecond ^^ 15) s) c r post uid nm))"
    unfolding l by (simp add: handleSendInvite_def Let_def split: api_result.split)
  show ?thesis using a b c d by (simp add: l)
qed

theorem outgoing_invite_expires_after_15_steps_witness:
  "outgoingInvite lobbyWaiting = Some \<lparr>invitee_user_id = 12, invitee_name = ''Bo''\<rparr>
   \<and> outgoingInviteTimer lobbyWaiting = 15
   \<and> (14::nat) < 15
   \<and> outgoingInvite ((outgoingInviteSecond ^^ 14) lobbyWaiting)
       = Some \<lparr>invitee_user_id = 12, invitee_name = ''Bo''\<rparr>
   \<and> outgoingInviteTimer ((outgoingInviteSecond ^^ 14) lobbyWaiting) = 1
   \<and> outgoingInvite ((outgoingInviteSecond ^^ 15) lobbyWaiting) = None
   \<and> outgoingInviteTimer ((outgoingInviteSecond ^^ 15) lobbyWaiting) = 15
   \<and> PostMatchInvite 13
       \<in> set (snd (handleSendInvite ((outgoingInviteSecond ^^ 15) lobbyWaiting) True True ApiOk 13
                    (Some ''Cy'')))"
proof -
  note t = outgoing_invite_expires_after_15_steps
             [OF lobbyWaiting_pending, where c = True and r = True and uid = 13
               and nm = "Some ''Cy''" and post = ApiOk]
  from t have "outgoingInvite ((outgoingInviteSecond ^^ 14) lobbyWaiting)
                 = Some \<lparr>invitee_user_id = 12, invitee_name = ''Bo''\<rparr>
               \<and> outgoingInviteTimer ((outgoingInviteSecond ^^ 14) lobbyWaiting) = 15 - int 14"
    by simp
  with t lobbyWaiting_pending show ?thesis by simp
qed

text \<open>
  C9. Receiving \<^verbatim>\<open>invite_declined\<close> clears the waiting state: the outgoing invitation
  becomes null and its countdown 15, and the effect has nothing more to do. A new
  \<^verbatim>\<open>handleSendInvite\<close> right after it performs its invite request, does not answer
  with the already-pending message and, when the request succeeds, sets the new
  outgoing invitation.
\<close>

theorem invite_declined_frees_inviter:
  "outgoingInvite (invite_declined s) = None
   \<and> outgoingInviteTimer (invite_declined s) = 15
   \<and> outgoingInviteEffect (invite_declined s) = (invite_declined s, [])
   \<and> outgoingInvite (fst (handleSendInvite (invite_declined s) c r ApiOk uid nm)) =
       Some \<lparr>invitee_user_id = uid,
             invitee_name = (if truthy nm then the nm else ''User '' @ decimal uid)\<rparr>
   \<and> PostMatchInvite uid \<in> set (snd (handleSendInvite (invite_declined s) c r post uid nm))
   \<and> message (fst (handleSendInvite (invite_declined s) c r post uid nm))
       \<noteq> ''You already have a pending invitation. Please wait for a response.''"
  by (simp add: invite_declined_def outgoingInviteEffect_def handleSendInvite_def Let_def
      split: api_result.split)

theorem invite_declined_frees_inviter_witness:
  "outgoingInvite lobbyWaiting \<noteq> None
   \<and> outgoingInvite (invite_declined lobbyWaiting) = None
   \<and> outgoingInviteTimer (invite_declined lobbyWaiting) = 15
   \<and> outgoingInvite (fst (handleSendInvite (invite_declined lobbyWaiting) True True ApiOk 13 (Some ''Cy'')))
       = Some \<lparr>invitee_user_id = 13, invitee_name = ''Cy''\<rparr>"
  using invite_declined_frees_inviter
          [where s = lobbyWaiting and c = True and r = True and uid = 13 and nm = "Some ''Cy''"
             and post = ApiOk]
    lobbyWaiting_pending
  by simp

subsection \<open>Timer: sending\<close>

lemma getCurrentDuration_ignores_remaining:
  "getCurrentDuration (s\<lparr>timeRemaining := tr\<rparr>) = getCurrentDuration s"
  by (auto simp: getCurrentDuration_def presetOrCustom_def Let_def)

text \<open>The full duration of every mode under every preset choice, value by value.\<close>

lemma presetOrCustom_table:
  "presetOrCustom s pomodoro =
     (if selectedPreset s pomodoro = 0 then 1500
      else if selectedPreset s pomodoro = 1 then 900
      else if selectedPreset s pomodoro = 2 then 2700
      else customDurations s pomodoro)"
  "presetOrCustom s short =
     (if selectedPreset s short = 0 then 180
      else if selectedPreset s short = 1 then 300
      else if selectedPreset s short = 2 then 600
      else customDurations s short)"
  "presetOrCustom s long =
     (if selectedPreset s long = 0 then 600
      else if selectedPreset s long = 1 then 900
      else if selectedPreset s long = 2 then 1800
      else customDurations s long)"
  by (auto simp: presetOrCustom_def Let_def nth_Cons' less_Suc_eq numeral_eq_Suc)

text \<open>
  C2. The reset control emits exactly one \<^verbatim>\<open>timer_action\<close>; it carries the action
  \<^verbatim>\<open>reset\<close>, the client's current mode and, as its time, the full duration of that
  mode: 1500, 900 or 2700 seconds for the three pomodoro presets, 180, 300 or 600 for the
  short break, 600, 900 or 1800 for the long break, and the mode's custom duration when
  the selected preset has no time of its own. The payload is the same whatever the
  remaining time is.
\<close>

theorem handleReset_emits_full_duration:
  "snd (handleReset s) =
     [EmitTimerAction
        \<lparr>room_id = sessionRoomProp s, action = ''reset'',
         time = Num (case mode s of
                       pomodoro \<Rightarrow>
                         (if selectedPreset s pomodoro = 0 then 1500
                          else if selectedPreset s pomodoro = 1 then 900
                          else if selectedPreset s pomodoro = 2 then 2700
                          else customDurations s pomodoro)
                     | short \<Rightarrow>
                         (if selectedPreset s short = 0 then 180
                          else if selectedPreset s short = 1 then 300
                          else if selectedPreset s short = 2 then 600
                          else customDurations s short)
                     | long \<Rightarrow>
                         (if selectedPreset s long = 0 then 600
                          else if selectedPreset s long = 1 then 900
                          else if selectedPreset s long = 2 then 1800
                          else customDurations s long)),
         mode_sent = mode s\<rparr>]
   \<and> snd (handleReset s) =
       [EmitTimerAction \<lparr>room_id = sessionRoomProp s, action = ''reset'',
                         time = Num (getCurrentDuration s), mode_sent = mode s\<rparr>]
   \<and> snd (handleReset (s\<lparr>timeRemaining := tr\<rparr>)) = snd (handleReset s)
   \<and> (mode s = pomodoro \<and> selectedPreset s pomodoro = 0 \<longrightarrow> getCurrentDuration s = 1500)"
proof -
  have e: "snd (handleReset s) =
       [EmitTimerAction \<lparr>room_id = sessionRoomProp s, action = ''reset'',
                         time = Num (getCurrentDuration s), mode_sent = mode s\<rparr>]"
    by (simp add: handleReset_def sendTimerAction_def Let_def)
  have i: "snd (handleReset (s\<lparr>timeRemaining := tr\<rparr>)) = snd (handleReset s)"
    by (simp add: handleReset_def sendTimerAction_def Let_def getCurrentDuration_ignores_remaining)
  have t: "getCurrentDuration s =
             (case mode s of
                pomodoro \<Rightarrow>
                  (if selectedPreset s pomodoro = 0 then 1500
                   else if selectedPreset s pomodoro = 1 then 900
                   else if selectedPreset s pomodoro = 2 then 2700
                   else customDurations s pomodoro)
              | short \<Rightarrow>
                  (if selectedPreset s short = 0 then 180
                   else if selectedPreset s short = 1 then 300
                   else if selectedPreset s short = 2 then 600
                   else customDurations s short)
              | long \<Rightarrow>
                  (if selectedPreset s long = 0 then 600
                   else if selectedPreset s long = 1 then 900
                   else if selectedPreset s long = 2 then 1800
                   else customDurations s long))"
    by (cases "mode s") (simp_all add: getCurrentDuration_def presetOrCustom_table)
  have p: "mode s = pomodoro \<and> selectedPreset s pomodoro = 0 \<longrightarrow> getCurrentDuration s = 1500"
    by (simp add: t)
  from e i p show ?thesis unfolding t by blast
qed

theorem handleReset_emits_full_duration_witness:
  "mode midFocus = pomodoro \<and> selectedPreset midFocus pomodoro = 0
   \<and> timeRemaining midFocus = Num 417
   \<and> snd (handleReset midFocus) =
       [EmitTimerAction \<lparr>room_id = Some ''room-7'', action = ''reset'',
                         time = Num 1500, mode_sent = pomodoro\<rparr>]
   \<and> mode midShortBreak = short \<and> timeRemaining midShortBreak = Num 120
   \<and> snd (handleReset midShortBreak) =
       [EmitTimerAction \<lparr>room_id = Some ''room-7'', action = ''reset'',
                         time = Num 300, mode_sent = short\<rparr>]
   \<and> mode longPresetTimer = pomodoro
   \<and> snd (handleReset longPresetTimer) =
       [EmitTimerAction \<lparr>room_id = Some ''room-7'', action = ''reset'',
                         time = Num 2700, mode_sent = pomodoro\<rparr>]"
proof -
  have a: "mode midFocus = pomodoro" "selectedPreset midFocus pomodoro = 0"
    "sessionRoomProp midFocus = Some ''room-7''" "timeRemaining midFocus = Num 417"
    by (simp_all add: midFocus_def initialTimer_def)
  have b: "mode midShortBreak = short" "selectedPreset midShortBreak short = 1"
    "sessionRoomProp midShortBreak = Some ''room-7''" "timeRemaining midShortBreak = Num 120"
    by (simp_all add: midShortBreak_def handleSetMode_def Let_def initialTimer_def)
  have c: "mode longPresetTimer = pomodoro" "selectedPreset longPresetTimer pomodoro = 2"
    "sessionRoomProp longPresetTimer = Some ''room-7''"
    by (simp_all add: longPresetTimer_def handlePresetChange_def Let_def initialTimer_def)
  from handleReset_emits_full_duration [of midFocus Null]
  have f1: "snd (handleReset midFocus) =
       [EmitTimerAction \<lparr>room_id = Some ''room-7'', action = ''reset'',
                         time = Num 1500, mode_sent = pomodoro\<rparr>]"
    by (simp add: a)
  from handleReset_emits_full_duration [of midShortBreak Null]
  have f2: "snd (handleReset midShortBreak) =
       [EmitTimerAction \<lparr>room_id = Some ''room-7'', action = ''reset'',
                         time = Num 300, mode_sent = short\<rparr>]"
    by (simp add: b)
  from handleReset_emits_full_duration [of longPresetTimer Null]
  have f3: "snd (handleReset longPresetTimer) =
       [EmitTimerAction \<lparr>room_id = Some ''room-7'', action = ''reset'',
                         time = Num 2700, mode_sent = pomodoro\<rparr>]"
    by (simp add: c)
  from a b c f1 f2 f3 show ?thesis by blast
qed

lemma handleStartPause_paused_at_zero:
  "\<not> isRunning r \<Longrightarrow> timeRemaining r = Num 0 \<Longrightarrow>
   handleStartPause r =
     [EmitTimerAction \<lparr>room_id = sessionRoomProp r, action = ''start'', time = Num 0,
                       mode_sent = mode r\<rparr>]"
  by (simp add: handleStartPause_def sendTimerAction_def)

subsection \<open>Timer: receiving\<close>

text \<open>
  The step of the listener alone, for a \<^verbatim>\<open>reset\<close> that carries a number \<open>t\<close>: it
  stores \<open>t\<close>, clears the running flag and adopts the carried mode when there is one.
  Right after this step the progress is 0 percent exactly when \<open>t\<close> is non-zero and
  equals the receiver's own full duration for the resulting mode.
\<close>

lemma reset_update_handler_step:
  assumes "data_action data = ''reset''" and "data_time data = Num t"
  shows "timeRemaining (handleTimerUpdate s data) = Num t
       \<and> isRunning (handleTimerUpdate s data) = False
       \<and> mode (handleTimerUpdate s data) = (case data_mode data of Some m \<Rightarrow> m | None \<Rightarrow> mode s)
       \<and> (getProgress (handleTimerUpdate s data) = Percent 0
            \<longleftrightarrow> t = getCurrentDuration (handleTimerUpdate s data) \<and> t \<noteq> 0)"
  using assms
  by (auto simp: handleTimerUpdate_def Let_def getProgress_def progressOf_def split: option.splits)

text \<open>
  When the carried mode differs from the receiver's, the effect keyed on the mode runs
  after the listener; what it stores is the receiver's own duration for the new mode,
  whatever time the update carried.
\<close>

lemma reset_update_then_initDurationEffect:
  "timeRemaining (initDurationEffect (handleTimerUpdate s data))
     = Num (getCurrentDuration (handleTimerUpdate s data))"
  by (simp add: initDurationEffect_def)

text \<open>
  A client in the pomodoro mode that receives the partner's reset to a 600-second short
  break: the listener stores the carried 600 seconds and the short-break mode (the
  progress is then -100 percent, the client's own short break being 300 seconds), and
  the effect keyed on the mode replaces the 600 by the client's own 300.
\<close>

lemma reset_update_mode_change_overwritten:
  "timeRemaining (handleTimerUpdate midFocus resetToExtendedBreak) = Num 600
   \<and> mode (handleTimerUpdate midFocus resetToExtendedBreak) = short
   \<and> mode midFocus \<noteq> short
   \<and> getProgress (handleTimerUpdate midFocus resetToExtendedBreak) = Percent (- 100)
   \<and> timeRemaining (initDurationEffect (handleTimerUpdate midFocus resetToExtendedBreak)) = Num 300
   \<and> getProgress (initDurationEffect (handleTimerUpdate midFocus resetToExtendedBreak)) = Percent 0"
  by (simp add: handleTimerUpdate_def resetToExtendedBreak_def midFocus_def initialTimer_def
      initDurationEffect_def getProgress_def progressOf_def getCurrentDuration_def
      presetOrCustom_def Let_def)

text \<open>
  C3. A received \<^verbatim>\<open>reset\<close> that carries a time should leave both clients at 0 percent
  elapsed. On the code the sender, on the 25-minute preset, resets to 1500 seconds and
  shows 0 percent; a receiver that chose the 45-minute preset stores the carried 1500
  seconds, its mode does not change, and against its own total of 2700 seconds its
  progress is 400/9 percent, shown as 44.
\<close>

theorem reset_update_progress_not_zero:
  "snd (handleReset midFocus) =
     [EmitTimerAction \<lparr>room_id = Some ''room-7'', action = ''reset'',
                       time = Num 1500, mode_sent = pomodoro\<rparr>]
   \<and> getProgress (fst (handleReset midFocus)) = Percent 0
   \<and> timeRemaining (handleTimerUpdate longPresetTimer resetToClassic) = Num 1500
   \<and> mode (handleTimerUpdate longPresetTimer resetToClassic) = mode longPresetTimer
   \<and> getCurrentDuration (handleTimerUpdate longPresetTimer resetToClassic) = 2700
   \<and> getProgress (handleTimerUpdate longPresetTimer resetToClassic) = Percent (400 / 9)
   \<and> progressLabel (handleTimerUpdate longPresetTimer resetToClassic) = Percent 44
   \<and> getProgress (handleTimerUpdate longPresetTimer resetToClassic) \<noteq> Percent 0"
proof -
  have u: "handleTimerUpdate longPresetTimer resetToClassic
             = longPresetTimer\<lparr>timeRemaining := Num 1500, isRunning := False\<rparr>"
    by (simp add: handleTimerUpdate_def resetToClassic_def longPresetTimer_def
        handlePresetChange_def initialTimer_def Let_def)
  have d: "getCurrentDuration (longPresetTimer\<lparr>timeRemaining := Num 1500, isRunning := False\<rparr>) = 2700"
    by (simp add: getCurrentDuration_def presetOrCustom_def longPresetTimer_def
        handlePresetChange_def initialTimer_def Let_def)
  have g: "getProgress (handleTimerUpdate longPresetTimer resetToClassic) = Percent (400 / 9)"
    unfolding u by (simp add: getProgress_def progressOf_def d)
  have f: "\<lfloor>(809 / 18 :: rat)\<rfloor> = 44"
    by (rule floor_unique) simp_all
  have l: "progressLabel (handleTimerUpdate longPresetTimer resetToClassic) = Percent 44"
    by (simp add: progressLabel_def g f)
  have s1: "snd (handleReset midFocus) =
     [EmitTimerAction \<lparr>room_id = Some ''room-7'', action = ''reset'',
                       time = Num 1500, mode_sent = pomodoro\<rparr>]"
    by (simp add: handleReset_def sendTimerAction_def getCurrentDuration_def presetOrCustom_def
        midFocus_def initialTimer_def Let_def)
  have s2: "getProgress (fst (handleReset midFocus)) = Percent 0"
    by (simp add: handleReset_def getProgress_def progressOf_def getCurrentDuration_def
        presetOrCustom_def midFocus_def initialTimer_def Let_def)
  have m: "mode (handleTimerUpdate longPresetTimer resetToClassic) = mode longPresetTimer"
    unfolding u by simp
  have t: "timeRemaining (handleTimerUpdate longPresetTimer resetToClassic) = Num 1500"
    unfolding u by simp
  have d': "getCurrentDuration (handleTimerUpdate longPresetTimer resetToClassic) = 2700"
    unfolding u by (rule d)
  from s1 s2 t m d' g l show ?thesis by simp
qed

lemma start_update_nonzero_time:
  "data_action data = ''start'' \<Longrightarrow> data_time data = Num t \<Longrightarrow> t \<noteq> 0 \<Longrightarrow>
   handleTimerUpdate s data = s\<lparr>timeRemaining := Num t, isRunning := True\<rparr>"
  by (simp add: handleTimerUpdate_def timeOrRemaining_def)

lemma start_update_zero_time:
  "data_action data = ''start'' \<Longrightarrow> data_time data = Num 0 \<Longrightarrow>
   handleTimerUpdate s data = s\<lparr>isRunning := True\<rparr>"
  by (simp add: handleTimerUpdate_def timeOrRemaining_def)

text \<open>
  C4. A received \<^verbatim>\<open>start\<close> should seed the countdown with the carried time, 0 included.
  On the code a carried 0 is falsy in \<^verbatim>\<open>data.time || timeRemaining\<close>: a freshly mounted
  client (1500 seconds left) that receives \<^verbatim>\<open>start\<close> with time 0 keeps its 1500 seconds
  and starts running.
\<close>

theorem start_update_with_zero_keeps_local_time:
  "timeRemaining (handleTimerUpdate (initialTimer (Some ''room-7'') False) startAtZero) = Num 1500
   \<and> timeRemaining (handleTimerUpdate (initialTimer (Some ''room-7'') False) startAtZero) \<noteq> Num 0
   \<and> isRunning (handleTimerUpdate (initialTimer (Some ''room-7'') False) startAtZero)"
  by (simp add: handleTimerUpdate_def timeOrRemaining_def initialTimer_def startAtZero_def
      DEFAULT_POMODORO_TIME_def)

subsection \<open>Timer: skip and completion\<close>

text \<open>
  C5. The skip control emits one \<^verbatim>\<open>timer_action\<close> with action \<^verbatim>\<open>skip\<close> and time 0. A
  client that receives \<^verbatim>\<open>skip\<close> sets its remaining time to 0 and its running flag to
  true, whatever time and mode the update carries, and changes nothing else. On that
  state the client's own countdown effect takes the completion branch: it stops the
  timer, plays the sound, and counts and reports a finished pomodoro exactly when the
  client's own mode is the pomodoro mode.
\<close>

theorem skip_forces_zero_and_local_completion:
  "handleSkip r =
     [EmitTimerAction \<lparr>room_id = sessionRoomProp r, action = ''skip'', time = Num 0, mode_sent = mode r\<rparr>]
   \<and> handleTimerUpdate s \<lparr>data_action = ''skip'', data_time = tm, data_mode = md\<rparr>
       = s\<lparr>timeRemaining := Num 0, isRunning := True\<rparr>
   \<and> isRunning (fst (countdownEffect
        (handleTimerUpdate s \<lparr>data_action = ''skip'', data_time = tm, data_mode = md\<rparr>))) = False
   \<and> pomodoroCount (fst (countdownEffect
        (handleTimerUpdate s \<lparr>data_action = ''skip'', data_time = tm, data_mode = md\<rparr>)))
       = (if mode s = pomodoro then pomodoroCount s + 1 else pomodoroCount s)
   \<and> PlayNotificationSound \<in> set (snd (countdownEffect
        (handleTimerUpdate s \<lparr>data_action = ''skip'', data_time = tm, data_mode = md\<rparr>)))
   \<and> (EmitPomodoroCompleted (sessionRoomProp s) \<in> set (snd (countdownEffect
        (handleTimerUpdate s \<lparr>data_action = ''skip'', data_time = tm, data_mode = md\<rparr>)))
       \<longleftrightarrow> mode s = pomodoro)"
  by (simp add: handleSkip_def sendTimerAction_def handleTimerUpdate_def countdownEffect_def Let_def)

theorem skip_forces_zero_and_local_completion_witness:
  "handleSkip midFocus =
     [EmitTimerAction \<lparr>room_id = Some ''room-7'', action = ''skip'', time = Num 0, mode_sent = pomodoro\<rparr>]
   \<and> timeRemaining (handleTimerUpdate midFocus
        \<lparr>data_action = ''skip'', data_time = Num 0, data_mode = Some pomodoro\<rparr>) = Num 0
   \<and> pomodoroCount (fst (countdownEffect (handleTimerUpdate midFocus
        \<lparr>data_action = ''skip'', data_time = Num 0, data_mode = Some pomodoro\<rparr>))) = 1"
proof -
  let ?d = "\<lparr>data_action = ''skip'', data_time = Num 0, data_mode = Some pomodoro\<rparr>"
  have h: "mode midFocus = pomodoro" "sessionRoomProp midFocus = Some ''room-7''"
    "pomodoroCount midFocus = 0"
    by (simp_all add: midFocus_def initialTimer_def)
  note t = skip_forces_zero_and_local_completion
             [where r = midFocus and s = midFocus and tm = "Num 0" and md = "Some pomodoro"]
  from t have e1: "handleSkip midFocus =
     [EmitTimerAction \<lparr>room_id = sessionRoomProp midFocus, action = ''skip'', time = Num 0,
                       mode_sent = mode midFocus\<rparr>]"
    by blast
  from t have e2: "handleTimerUpdate midFocus ?d = midFocus\<lparr>timeRemaining := Num 0, isRunning := True\<rparr>"
    by blast
  from t have e3: "pomodoroCount (fst (countdownEffect (handleTimerUpdate midFocus ?d)))
                     = (if mode midFocus = pomodoro then pomodoroCount midFocus + 1
                        else pomodoroCount midFocus)"
    by blast
  have f1: "handleSkip midFocus =
     [EmitTimerAction \<lparr>room_id = Some ''room-7'', action = ''skip'', time = Num 0, mode_sent = pomodoro\<rparr>]"
    using e1 h by simp
  have f2: "timeRemaining (handleTimerUpdate midFocus ?d) = Num 0"
    by (simp add: e2)
  have f3: "pomodoroCount (fst (countdownEffect (handleTimerUpdate midFocus ?d))) = 1"
    using e3 h by simp
  show ?thesis using f1 f2 f3 by blast
qed

text \<open>
  C10. When the countdown effect finds a running pomodoro at 0 with auto-start on, the
  completed-pomodoro count goes up by exactly one and exactly one timeout is armed; when
  that timeout fires, on whatever state \<open>s2\<close> the client is in by then, the mode becomes
  the long break if the new count is divisible by 4 and the short break otherwise, and
  the count is not touched. Running the effect again on the state it produced does
  nothing.
\<close>

theorem pomodoro_completion_counts_and_advances:
  assumes "isRunning s" and "timeRemaining s = Num 0" and "mode s = pomodoro" and "autoStartBreaks s"
  shows "pomodoroCount (fst (countdownEffect s)) = pomodoroCount s + 1
       \<and> filter (\<lambda>e. case e of SetTimeout d cb \<Rightarrow> True | _ \<Rightarrow> False) (snd (countdownEffect s))
           = [SetTimeout 2000 (StartBreak (pomodoroCount s + 1))]
       \<and> mode (fst (autoStartTimeout s (StartBreak (pomodoroCount s + 1)) s2))
           = (if (pomodoroCount s + 1) mod 4 = 0 then long else short)
       \<and> pomodoroCount (fst (autoStartTimeout s (StartBreak (pomodoroCount s + 1)) s2))
           = pomodoroCount s2
       \<and> countdownEffect (fst (countdownEffect s)) = (fst (countdownEffect s), [])"
  using assms
  by (simp add: countdownEffect_def autoStartTimeout_def handleSetMode_def Let_def)

theorem pomodoro_completion_counts_and_advances_witness:
  "isRunning focusJustRanOut \<and> timeRemaining focusJustRanOut = Num 0
   \<and> mode focusJustRanOut = pomodoro \<and> autoStartBreaks focusJustRanOut
   \<and> pomodoroCount (fst (countdownEffect focusJustRanOut)) = 4
   \<and> mode (fst (autoStartTimeout focusJustRanOut (StartBreak 4) (fst (countdownEffect focusJustRanOut))))
       = long"
proof -
  have a: "isRunning focusJustRanOut" and b: "timeRemaining focusJustRanOut = Num 0"
    and c: "mode focusJustRanOut = pomodoro" and d: "autoStartBreaks focusJustRanOut"
    and n: "pomodoroCount focusJustRanOut = 3"
    by (simp_all add: focusJustRanOut_def initialTimer_def)
  from pomodoro_completion_counts_and_advances
         [OF a b c d, where ?s2.0 = "fst (countdownEffect focusJustRanOut)"] a b c d n
  show ?thesis by simp
qed

end
